theory Spec2Isabelle
  imports Main "HOL-Library.Multiset"
begin

section \<open>The persistent store\<close>

text \<open>
  The storage layer (\<^verbatim>\<open>backend-svc/storage/db_storage.go\<close>) talks to a relational
  store through \<^verbatim>\<open>database/sql\<close>. A table is the list of its rows, in storage order;
  the columns are the ones the SQL statements of the source name. A nullable column is an
  \<open>option\<close> (\<open>None\<close> is SQL \<open>NULL\<close>). Identifiers are Go \<^verbatim>\<open>int\<close>s, on which the code
  does no arithmetic. An instant is a number of nanoseconds; a timestamp column keeps the
  instant it is given.
\<close>

type_synonym instant = int

record user_row =
  u_id :: int
  u_username :: string
  u_password_hash :: string
  u_email :: string
  u_full_name :: string
  u_totp_secret :: string
  u_is_2fa_enabled :: bool
  u_is_admin :: bool
  u_is_active :: bool
  u_last_login :: "instant option"
  u_otp_code :: "string option"
  u_otp_expires_at :: "instant option"

record course_row =
  c_id :: int
  c_vulnerability_type :: string
  c_description :: string

record task_row =
  t_id :: int
  t_course_id :: int
  t_title :: string
  t_description :: string
  t_difficulty :: string
  t_task_order :: int

record db =
  users :: "user_row list"
  courses :: "course_row list"
  tasks :: "task_row list"
  user_progress :: "(int \<times> int) list"

text \<open>
  Every call into \<^verbatim>\<open>database/sql\<close> can return an error of the driver (connection lost,
  a constraint of the schema violated, ...). A \<open>call\<close> names one such call of a function
  body: the transaction calls, and \<open>Prepare n\<close>, \<open>Exec n\<close>, \<open>QueryRow n\<close>, \<open>Query n\<close>,
  \<open>RowsScan n\<close>, \<open>RowsErr n\<close> for the \<open>n\<close>-th SQL statement of the body, in source order.
\<close>

datatype call =
    TxBegin
  | TxCommit
  | TxRollback
  | Prepare nat
  | Exec nat
  | QueryRow nat
  | Query nat
  | RowsScan nat
  | RowsErr nat

datatype error =
    ErrCourseNotFound
  | ErrTaskNotFound
  | ErrUserExists
  | ErrStore call
  | ErrScanNull nat
  | ErrForeignKey
  | ErrBcrypt

text \<open>
  \<open>ErrUserExists\<close> is \<^verbatim>\<open>errors.New("username or email already exists")\<close>; \<open>ErrStore c\<close> is
  the error call \<open>c\<close> returned (as it is, or wrapped by \<^verbatim>\<open>fmt.Errorf\<close>); \<open>ErrScanNull i\<close> is
  the error of \<^verbatim>\<open>Scan\<close> when column \<open>i\<close> of the row is \<open>NULL\<close> and the destination is a
  plain \<^verbatim>\<open>string\<close> or \<^verbatim>\<open>time.Time\<close> (\<^verbatim>\<open>converting NULL to string is unsupported\<close>);
  \<open>ErrForeignKey\<close> is the error of an \<^verbatim>\<open>Exec\<close> whose row names a user or a task that no row
  of the referenced table has; \<open>ErrBcrypt\<close> is the error of \<^verbatim>\<open>bcrypt.GenerateFromPassword\<close>.

  The environment of one call of the storage layer: which store calls fail, what
  \<^verbatim>\<open>time.Now()\<close> returns, what \<^verbatim>\<open>bcrypt.GenerateFromPassword\<close> returns for a password (it
  draws a random salt, so the hash is the environment's), and the row the \<^verbatim>\<open>users\<close> table
  makes for the columns an \<^verbatim>\<open>INSERT\<close> does not name (the assigned id and the column
  defaults of the schema, which is not part of the source).
\<close>

record env =
  fails :: "call \<Rightarrow> bool"
  now :: instant
  bcrypt :: "string \<Rightarrow> string option"
  new_row :: user_row

definition minute :: int where
  "minute = 60 * 1000000000"

text \<open>\<^verbatim>\<open>UPDATE users SET ... WHERE id = ?\<close>: every row with that id is rewritten.\<close>

definition update_users :: "(user_row \<Rightarrow> user_row) \<Rightarrow> int \<Rightarrow> db \<Rightarrow> db" where
  "update_users f uid d =
     d\<lparr>users := map (\<lambda>r. if u_id r = uid then f r else r) (users d)\<rparr>"

section \<open>One-time codes\<close>

text \<open>
  \<^verbatim>\<open>SaveOTPCode\<close> (lines 308-319): the expiry is computed first, then the statement is
  prepared and executed; the function returns the error of the failing call, or nil.
  The model returns the error and the store after the call.
\<close>

definition SaveOTPCode :: "env \<Rightarrow> db \<Rightarrow> int \<Rightarrow> string \<Rightarrow> error option \<times> db" where
  "SaveOTPCode e d userID code =
     (let expiresAt = now e + 5 * minute in
      if fails e (Prepare 1) then (Some (ErrStore (Prepare 1)), d)
      else if fails e (Exec 1) then (Some (ErrStore (Exec 1)), d)
      else (None,
            update_users (\<lambda>r. r\<lparr>u_otp_code := Some code, u_otp_expires_at := Some expiresAt\<rparr>)
              userID d))"

text \<open>\<^verbatim>\<open>ClearOTPCode\<close> (lines 351-360): both columns are set to \<open>NULL\<close>.\<close>

definition ClearOTPCode :: "env \<Rightarrow> db \<Rightarrow> int \<Rightarrow> error option \<times> db" where
  "ClearOTPCode e d userID =
     (if fails e (Prepare 1) then (Some (ErrStore (Prepare 1)), d)
      else if fails e (Exec 1) then (Some (ErrStore (Exec 1)), d)
      else (None,
            update_users (\<lambda>r. r\<lparr>u_otp_code := None, u_otp_expires_at := None\<rparr>) userID d))"

text \<open>
  \<^verbatim>\<open>SELECT otp_code, otp_expires_at FROM users WHERE id = ?\<close>: the two columns of the rows
  with that id.
\<close>

definition select_otp :: "db \<Rightarrow> int \<Rightarrow> (string option \<times> instant option) list" where
  "select_otp d uid =
     map (\<lambda>r. (u_otp_code r, u_otp_expires_at r)) (filter (\<lambda>r. u_id r = uid) (users d))"

text \<open>
  \<^verbatim>\<open>VerifyOTPCode\<close> (lines 321-349) returns a pair \<^verbatim>\<open>(bool, error)\<close>. \<^verbatim>\<open>QueryRow(...).Scan\<close>
  reads the first row into \<^verbatim>\<open>storedCode string\<close> and \<^verbatim>\<open>expiresAt time.Time\<close>: with no row
  it returns \<^verbatim>\<open>sql.ErrNoRows\<close>, which the function turns into \<^verbatim>\<open>(false, nil)\<close>; with a
  \<open>NULL\<close> in a column it returns a conversion error, since neither destination is a
  \<^verbatim>\<open>sql.Null...\<close> type, and the function returns that error. \<^verbatim>\<open>time.Now().After(expiresAt)\<close>
  is strict; \<^verbatim>\<open>subtle.ConstantTimeCompare\<close> is 1 exactly for equal byte strings.
\<close>

definition VerifyOTPCode :: "env \<Rightarrow> db \<Rightarrow> int \<Rightarrow> string \<Rightarrow> bool \<times> error option" where
  "VerifyOTPCode e d userID code =
     (if fails e (Prepare 1) then (False, Some (ErrStore (Prepare 1)))
      else if fails e (QueryRow 1) then (False, Some (ErrStore (QueryRow 1)))
      else
        (case select_otp d userID of
           [] \<Rightarrow> (False, None)
         | (c, x) # _ \<Rightarrow>
             (case c of
                None \<Rightarrow> (False, Some (ErrScanNull 0))
              | Some storedCode \<Rightarrow>
                  (case x of
                     None \<Rightarrow> (False, Some (ErrScanNull 1))
                   | Some expiresAt \<Rightarrow>
                       if storedCode = [] then (False, None)
                       else if now e > expiresAt then (False, None)
                       else (code = storedCode, None)))))"

text \<open>
  The invariant of a user row: the code and its expiry are both set or both absent.
\<close>

definition otp_inv :: "user_row \<Rightarrow> bool" where
  "otp_inv r = ((u_otp_code r = None) = (u_otp_expires_at r = None))"


section \<open>Progress\<close>

text \<open>
  The structs of package \<^verbatim>\<open>models\<close> are records; a field \<^verbatim>\<open>F\<close> of struct \<^verbatim>\<open>User\<close>,
  \<^verbatim>\<open>Course\<close>, \<^verbatim>\<open>Task\<close>, \<^verbatim>\<open>UserProgress\<close> and \<^verbatim>\<open>UpdateProfileRequest\<close> is written
  \<open>usr_F\<close>, \<open>crs_F\<close>, \<open>tsk_F\<close>, \<open>prg_F\<close> and \<open>req_F\<close>, since several structs share field names.
  A Go \<^verbatim>\<open>map[int]bool\<close> is a map.
\<close>

record UserProgress =
  prg_UserID :: int
  prg_Completed :: "int \<rightharpoonup> bool"

text \<open>\<^verbatim>\<open>SELECT task_id FROM user_progress WHERE user_id = ?\<close>\<close>

definition select_progress :: "db \<Rightarrow> int \<Rightarrow> int list" where
  "select_progress d uid = map snd (filter (\<lambda>p. fst p = uid) (user_progress d))"

text \<open>The loop over the rows: \<^verbatim>\<open>completed[taskID] = true\<close>.\<close>

fun mark_all :: "(int \<rightharpoonup> bool) \<Rightarrow> int list \<Rightarrow> (int \<rightharpoonup> bool)" where
  "mark_all m [] = m"
| "mark_all m (t # ts) = mark_all (m(t \<mapsto> True)) ts"

text \<open>
  \<^verbatim>\<open>GetUserProgress\<close> (lines 148-178). A failing \<^verbatim>\<open>rows.Scan\<close> needs a row to scan.
\<close>

definition GetUserProgress :: "env \<Rightarrow> db \<Rightarrow> int \<Rightarrow> error + UserProgress" where
  "GetUserProgress e d userID =
     (if fails e (Prepare 1) then Inl (ErrStore (Prepare 1))
      else if fails e (Query 1) then Inl (ErrStore (Query 1))
      else
        (let rows = select_progress d userID in
         if rows \<noteq> [] \<and> fails e (RowsScan 1) then Inl (ErrStore (RowsScan 1))
         else if fails e (RowsErr 1) then Inl (ErrStore (RowsErr 1))
         else Inr \<lparr>prg_UserID = userID, prg_Completed = mark_all Map.empty rows\<rparr>))"

text \<open>\<^verbatim>\<open>SELECT EXISTS(SELECT 1 FROM tasks WHERE id = ?)\<close>\<close>

definition task_exists :: "db \<Rightarrow> int \<Rightarrow> bool" where
  "task_exists d tid = (tid \<in> set (map t_id (tasks d)))"

text \<open>
  Modelled from the spec: the constraints of table \<^verbatim>\<open>user_progress\<close>, whose schema is not
  part of the source; the spec gives
  \<^verbatim>\<open>user_progress(user_id FK, task_id FK, UNIQUE(user_id, task_id))\<close>. With them,
  \<^verbatim>\<open>INSERT INTO user_progress (user_id, task_id) VALUES (?, ?) ON DUPLICATE KEY UPDATE
  task_id = VALUES(task_id)\<close> is refused when no row of \<^verbatim>\<open>users\<close> has the user id or no row
  of \<^verbatim>\<open>tasks\<close> has the task id; otherwise it appends the row when no row has this pair, and
  rewrites \<^verbatim>\<open>task_id\<close> of the row that has it with the value it already holds.
\<close>

definition upsert_progress :: "int \<times> int \<Rightarrow> db \<Rightarrow> error + db" where
  "upsert_progress p d =
     (if fst p \<notin> set (map u_id (users d)) \<or> snd p \<notin> set (map t_id (tasks d))
      then Inl ErrForeignKey
      else if p \<in> set (user_progress d) then Inr d
      else Inr (d\<lparr>user_progress := user_progress d @ [p]\<rparr>))"

text \<open>
  \<^verbatim>\<open>CompleteTask\<close> (lines 180-204). The error of \<^verbatim>\<open>Exec\<close> is the driver's or the one of
  the constraints.
\<close>

definition CompleteTask :: "env \<Rightarrow> db \<Rightarrow> int \<Rightarrow> int \<Rightarrow> error option \<times> db" where
  "CompleteTask e d userID taskID =
     (if fails e (QueryRow 1) then (Some (ErrStore (QueryRow 1)), d)
      else if \<not> task_exists d taskID then (Some ErrTaskNotFound, d)
      else if fails e (Prepare 2) then (Some (ErrStore (Prepare 2)), d)
      else if fails e (Exec 2) then (Some (ErrStore (Exec 2)), d)
      else
        (case upsert_progress (userID, taskID) d of
           Inl x \<Rightarrow> (Some x, d)
         | Inr d' \<Rightarrow> (None, d')))"

section \<open>Courses\<close>

record Task =
  tsk_ID :: int
  tsk_CourseID :: int
  tsk_Title :: string
  tsk_Description :: string
  tsk_Difficulty :: string
  tsk_Order :: int

record Course =
  crs_ID :: int
  crs_VulnerabilityType :: string
  crs_TasksCount :: int
  crs_Description :: string
  crs_Tasks :: "Task list"

text \<open>\<^verbatim>\<open>tasksRows.Scan\<close>: the six columns of a row, into the fields of a \<^verbatim>\<open>Task\<close>.\<close>

definition scan_task :: "task_row \<Rightarrow> Task" where
  "scan_task t =
     \<lparr>tsk_ID = t_id t, tsk_CourseID = t_course_id t, tsk_Title = t_title t,
      tsk_Description = t_description t, tsk_Difficulty = t_difficulty t,
      tsk_Order = t_task_order t\<rparr>"

text \<open>\<^verbatim>\<open>FROM tasks WHERE course_id = ?\<close>, before the ordering.\<close>

definition tasks_of :: "db \<Rightarrow> int \<Rightarrow> task_row list" where
  "tasks_of d cid = filter (\<lambda>t. t_course_id t = cid) (tasks d)"

text \<open>
  \<^verbatim>\<open>GetCourseByID\<close> (lines 58-146; its parameter \<^verbatim>\<open>id\<close> is \<open>cid\<close> here). The first statement joins the course rows with that
  id to their tasks and groups by the id: no course row gives no result row
  (\<^verbatim>\<open>sql.ErrNoRows\<close>); otherwise the one group counts the joined rows that have a task.
  The second statement is \<^verbatim>\<open>ORDER BY task_order\<close>; the store may order rows of equal
  \<^verbatim>\<open>task_order\<close> as it likes, the model keeps them in storage order. Both run in a
  transaction that only reads, and the deferred function drops the result of
  \<^verbatim>\<open>Commit\<close> and \<^verbatim>\<open>Rollback\<close>: the store is as before, and only the result is modelled.
\<close>

definition GetCourseByID :: "env \<Rightarrow> db \<Rightarrow> int \<Rightarrow> error + Course" where
  "GetCourseByID e d cid =
     (if fails e TxBegin then Inl (ErrStore TxBegin)
      else if fails e (Prepare 1) then Inl (ErrStore (Prepare 1))
      else if fails e (QueryRow 1) then Inl (ErrStore (QueryRow 1))
      else
        (case filter (\<lambda>c. c_id c = cid) (courses d) of
           [] \<Rightarrow> Inl ErrCourseNotFound
         | c # cs \<Rightarrow>
             if fails e (Prepare 2) then Inl (ErrStore (Prepare 2))
             else if fails e (Query 2) then Inl (ErrStore (Query 2))
             else
               (let rows = sort_key t_task_order (tasks_of d cid) in
                if rows \<noteq> [] \<and> fails e (RowsScan 2) then Inl (ErrStore (RowsScan 2))
                else if fails e (RowsErr 2) then Inl (ErrStore (RowsErr 2))
                else Inr \<lparr>crs_ID = c_id c,
                          crs_VulnerabilityType = c_vulnerability_type c,
                          crs_TasksCount = int (length (c # cs) * length (tasks_of d cid)),
                          crs_Description = c_description c,
                          crs_Tasks = map scan_task rows\<rparr>)))"

section \<open>Users\<close>

record User =
  usr_ID :: int
  usr_Username :: string
  usr_PasswordHash :: string
  usr_Email :: string
  usr_FullName :: string
  usr_TOTPSecret :: string
  usr_Is2FAEnabled :: bool
  usr_IsAdmin :: bool
  usr_IsActive :: bool
  usr_LastLogin :: instant

text \<open>
  \<^verbatim>\<open>SELECT EXISTS(SELECT 1 FROM users WHERE username = ? OR email = ?)\<close>. The store
  compares strings by the collation of the column; the model compares them exactly.
\<close>

definition user_taken :: "db \<Rightarrow> string \<Rightarrow> string \<Rightarrow> bool" where
  "user_taken d username email =
     list_ex (\<lambda>r. u_username r = username \<or> u_email r = email) (users d)"

text \<open>
  The row of the \<^verbatim>\<open>INSERT\<close> of \<^verbatim>\<open>CreateUser\<close>: seven columns are named, the last value is
  the constant \<^verbatim>\<open>true\<close>; the other columns are the table's.
\<close>

definition inserted_row :: "env \<Rightarrow> User \<Rightarrow> user_row" where
  "inserted_row e user =
     (new_row e)\<lparr>u_username := usr_Username user,
                 u_password_hash := usr_PasswordHash user,
                 u_email := usr_Email user,
                 u_full_name := usr_FullName user,
                 u_totp_secret := usr_TOTPSecret user,
                 u_is_2fa_enabled := usr_Is2FAEnabled user,
                 u_is_active := True\<rparr>"

text \<open>\<^verbatim>\<open>CreateUser\<close> (lines 207-244).\<close>

definition CreateUser :: "env \<Rightarrow> db \<Rightarrow> User \<Rightarrow> error option \<times> db" where
  "CreateUser e d user =
     (if fails e (Prepare 1) then (Some (ErrStore (Prepare 1)), d)
      else if fails e (QueryRow 1) then (Some (ErrStore (QueryRow 1)), d)
      else if user_taken d (usr_Username user) (usr_Email user) then (Some ErrUserExists, d)
      else if fails e (Prepare 2) then (Some (ErrStore (Prepare 2)), d)
      else if fails e (Exec 2) then (Some (ErrStore (Exec 2)), d)
      else (None, d\<lparr>users := users d @ [inserted_row e user]\<rparr>))"

section \<open>Profile update\<close>

record UpdateProfileRequest =
  req_Email :: string
  req_FullName :: string
  req_Password :: string

text \<open>
  \<^verbatim>\<open>UpdateUserProfile\<close> (lines 514-573) runs its statements in a transaction. The store
  the other calls see changes at \<^verbatim>\<open>Commit\<close> only; until then the statements work on the
  transaction's own view. The outcome of the call is the returned error, the store,
  and how the call left the transaction.
\<close>

datatype tx_end = NotBegun | LeftOpen | Committed | CommitFailed | RolledBack

record outcome =
  ret :: "error option"
  store :: db
  tx :: tx_end

text \<open>
  The three blocks (lines 528-539, 541-552, 554-570), each on the view \<open>w\<close> of the
  transaction: \<open>Inl\<close> is the block's \<^verbatim>\<open>return err\<close>, \<open>Inr\<close> the view after the block.
\<close>

definition set_email :: "env \<Rightarrow> int \<Rightarrow> UpdateProfileRequest \<Rightarrow> db \<Rightarrow> error + db" where
  "set_email e userID data w =
     (if req_Email data = [] then Inr w
      else if fails e (Prepare 1) then Inl (ErrStore (Prepare 1))
      else if fails e (Exec 1) then Inl (ErrStore (Exec 1))
      else Inr (update_users (\<lambda>r. r\<lparr>u_email := req_Email data\<rparr>) userID w))"

definition set_full_name :: "env \<Rightarrow> int \<Rightarrow> UpdateProfileRequest \<Rightarrow> db \<Rightarrow> error + db" where
  "set_full_name e userID data w =
     (if req_FullName data = [] then Inr w
      else if fails e (Prepare 2) then Inl (ErrStore (Prepare 2))
      else if fails e (Exec 2) then Inl (ErrStore (Exec 2))
      else Inr (update_users (\<lambda>r. r\<lparr>u_full_name := req_FullName data\<rparr>) userID w))"

definition set_password :: "env \<Rightarrow> int \<Rightarrow> UpdateProfileRequest \<Rightarrow> db \<Rightarrow> error + db" where
  "set_password e userID data w =
     (if req_Password data = [] then Inr w
      else
        (case bcrypt e (req_Password data) of
           None \<Rightarrow> Inl ErrBcrypt
         | Some hashedPassword \<Rightarrow>
             if fails e (Prepare 3) then Inl (ErrStore (Prepare 3))
             else if fails e (Exec 3) then Inl (ErrStore (Exec 3))
             else Inr (update_users (\<lambda>r. r\<lparr>u_password_hash := hashedPassword\<rparr>) userID w)))"

definition profile_steps :: "env \<Rightarrow> int \<Rightarrow> UpdateProfileRequest \<Rightarrow> db \<Rightarrow> error + db" where
  "profile_steps e userID data w =
     (case set_email e userID data w of
        Inl x \<Rightarrow> Inl x
      | Inr w1 \<Rightarrow>
          (case set_full_name e userID data w1 of
             Inl x \<Rightarrow> Inl x
           | Inr w2 \<Rightarrow> set_password e userID data w2))"

text \<open>
  The deferred function (lines 519-526) reads the \<^verbatim>\<open>err\<close> of the function's own scope and
  calls \<^verbatim>\<open>tx.Rollback()\<close> when it is not nil; a rollback ends a transaction that is still
  open, and does nothing to one that \<^verbatim>\<open>Commit\<close> has ended. The error of the rollback
  would be stored in that \<^verbatim>\<open>err\<close>, which is not the result of the function.
\<close>

definition deferred :: "error option \<Rightarrow> outcome \<Rightarrow> outcome" where
  "deferred err out =
     (if err \<noteq> None \<and> tx out = LeftOpen then out\<lparr>tx := RolledBack\<rparr> else out)"

text \<open>
  The function's own \<^verbatim>\<open>err\<close> is assigned by \<^verbatim>\<open>s.DB.Begin()\<close> and never again: each block
  declares an \<^verbatim>\<open>err\<close> of its own with \<^verbatim>\<open>:=\<close>, the result of the function has no name, and
  \<^verbatim>\<open>return tx.Commit()\<close> assigns nothing. So past \<^verbatim>\<open>Begin\<close> the deferred function sees nil.
\<close>

definition UpdateUserProfile :: "env \<Rightarrow> db \<Rightarrow> int \<Rightarrow> UpdateProfileRequest \<Rightarrow> outcome" where
  "UpdateUserProfile e d userID data =
     (if fails e TxBegin then \<lparr>ret = Some (ErrStore TxBegin), store = d, tx = NotBegun\<rparr>
      else
        (let err = None in
         case profile_steps e userID data d of
           Inl x \<Rightarrow> deferred err \<lparr>ret = Some x, store = d, tx = LeftOpen\<rparr>
         | Inr w \<Rightarrow>
             if fails e TxCommit
             then deferred err \<lparr>ret = Some (ErrStore TxCommit), store = d, tx = CommitFailed\<rparr>
             else deferred err \<lparr>ret = None, store = w, tx = Committed\<rparr>))"

section \<open>Auxiliary notions\<close>

text \<open>A store whose calls all succeed.\<close>

definition healthy :: "env \<Rightarrow> bool" where
  "healthy e = (\<forall>c. \<not> fails e c)"

text \<open>
  What a profile request asks of one row, in the words of the specification: a field
  of the request that is empty leaves the column as it is, a field that is not empty
  replaces it, the password by its hash.
\<close>

definition applied :: "env \<Rightarrow> UpdateProfileRequest \<Rightarrow> user_row \<Rightarrow> user_row" where
  "applied e data r =
     r\<lparr>u_email := (if req_Email data = [] then u_email r else req_Email data),
       u_full_name := (if req_FullName data = [] then u_full_name r else req_FullName data),
       u_password_hash :=
         (if req_Password data = [] then u_password_hash r
          else case bcrypt e (req_Password data) of None \<Rightarrow> u_password_hash r | Some h \<Rightarrow> h)\<rparr>"

text \<open>
  A field update of a request fails: the field is selected (not empty) and one of its
  calls fails. The error of the first such call, in the order of the blocks.
\<close>

definition email_fails :: "env \<Rightarrow> UpdateProfileRequest \<Rightarrow> bool" where
  "email_fails e data = (req_Email data \<noteq> [] \<and> (fails e (Prepare 1) \<or> fails e (Exec 1)))"

definition full_name_fails :: "env \<Rightarrow> UpdateProfileRequest \<Rightarrow> bool" where
  "full_name_fails e data =
     (req_FullName data \<noteq> [] \<and> (fails e (Prepare 2) \<or> fails e (Exec 2)))"

definition password_fails :: "env \<Rightarrow> UpdateProfileRequest \<Rightarrow> bool" where
  "password_fails e data =
     (req_Password data \<noteq> [] \<and>
      (bcrypt e (req_Password data) = None \<or> fails e (Prepare 3) \<or> fails e (Exec 3)))"

definition first_field_error :: "env \<Rightarrow> UpdateProfileRequest \<Rightarrow> error" where
  "first_field_error e data =
     (if email_fails e data
      then (if fails e (Prepare 1) then ErrStore (Prepare 1) else ErrStore (Exec 1))
      else if full_name_fails e data
      then (if fails e (Prepare 2) then ErrStore (Prepare 2) else ErrStore (Exec 2))
      else if bcrypt e (req_Password data) = None then ErrBcrypt
      else if fails e (Prepare 3) then ErrStore (Prepare 3)
      else ErrStore (Exec 3))"

subsection \<open>A small store\<close>

definition alice :: user_row where
  "alice = \<lparr>u_id = 7, u_username = ''alice'', u_password_hash = ''h0'', u_email = ''a@x.com'',
     u_full_name = ''Alice'', u_totp_secret = [], u_is_2fa_enabled = False, u_is_admin = False,
     u_is_active = True, u_last_login = None, u_otp_code = None, u_otp_expires_at = None\<rparr>"

definition blank_row :: user_row where
  "blank_row = \<lparr>u_id = 8, u_username = [], u_password_hash = [], u_email = [],
     u_full_name = [], u_totp_secret = [], u_is_2fa_enabled = False, u_is_admin = False,
     u_is_active = False, u_last_login = None, u_otp_code = None, u_otp_expires_at = None\<rparr>"

definition env0 :: env where
  "env0 = \<lparr>fails = (\<lambda>c. False), now = 0, bcrypt = (\<lambda>p. Some (''$2a$'' @ p)),
     new_row = blank_row\<rparr>"

definition db0 :: db where
  "db0 = \<lparr>users = [alice],
     courses = [\<lparr>c_id = 1, c_vulnerability_type = ''xss'', c_description = ''d''\<rparr>],
     tasks =
       [\<lparr>t_id = 10, t_course_id = 1, t_title = ''b'', t_description = [],
          t_difficulty = ''easy'', t_task_order = 2\<rparr>,
        \<lparr>t_id = 11, t_course_id = 2, t_title = ''c'', t_description = [],
          t_difficulty = ''easy'', t_task_order = 1\<rparr>,
        \<lparr>t_id = 12, t_course_id = 1, t_title = ''a'', t_description = [],
          t_difficulty = ''easy'', t_task_order = 1\<rparr>],
     user_progress = []\<rparr>"

text \<open>The same store, where the second \<^verbatim>\<open>Exec\<close> of a call fails.\<close>

definition env_exec2 :: env where
  "env_exec2 = env0\<lparr>fails := (\<lambda>c. c = Exec 2)\<rparr>"

definition candidate :: User where
  "candidate = \<lparr>usr_ID = 0, usr_Username = ''bob'', usr_PasswordHash = ''h1'',
     usr_Email = ''b@x.com'', usr_FullName = ''Bob'', usr_TOTPSecret = [],
     usr_Is2FAEnabled = False, usr_IsAdmin = True, usr_IsActive = False, usr_LastLogin = 0\<rparr>"

definition req_name :: UpdateProfileRequest where
  "req_name = \<lparr>req_Email = [], req_FullName = ''new'', req_Password = []\<rparr>"

definition req_two :: UpdateProfileRequest where
  "req_two = \<lparr>req_Email = ''n@x.com'', req_FullName = ''New'', req_Password = []\<rparr>"

lemmas example_defs =
  alice_def blank_row_def env0_def db0_def env_exec2_def candidate_def req_name_def req_two_def

section \<open>Facts about the store\<close>

lemma users_update_users:
  "users (update_users f uid d) = map (\<lambda>r. if u_id r = uid then f r else r) (users d)"
  by (simp add: update_users_def)

lemma update_users_same:
  assumes "\<And>r. f r = r"
  shows "update_users f uid d = d"
  using assms by (simp add: update_users_def map_idI)

lemma update_users_comp:
  assumes "\<And>r. u_id (f r) = u_id r"
  shows "update_users g uid (update_users f uid d) = update_users (\<lambda>r. g (f r)) uid d"
  using assms by (simp add: update_users_def)

lemma rows_update_users:
  assumes "r \<in> set (users (update_users f uid d))" and "u_id r = uid"
    and "\<And>r. u_id (f r) = u_id r"
  obtains r0 where "r0 \<in> set (users d)" and "r = f r0"
proof -
  from assms(1) obtain r0 where r0: "r0 \<in> set (users d)"
    and r: "r = (if u_id r0 = uid then f r0 else r0)"
    unfolding update_users_def by fastforce
  show thesis
  proof (cases "u_id r0 = uid")
    case True
    with r r0 that show thesis by simp
  next
    case False
    with r assms(2) show thesis by simp
  qed
qed

lemma otp_inv_update_users:
  assumes "\<forall>r \<in> set (users d). otp_inv r" and "\<And>r. otp_inv (f r)"
  shows "\<forall>r \<in> set (users (update_users f uid d)). otp_inv r"
  using assms by (auto simp: update_users_def)

lemma otp_inv_set: "otp_inv (r\<lparr>u_otp_code := Some c, u_otp_expires_at := Some x\<rparr>)"
  by (simp add: otp_inv_def)

lemma otp_inv_clear: "otp_inv (r\<lparr>u_otp_code := None, u_otp_expires_at := None\<rparr>)"
  by (simp add: otp_inv_def)

lemma SaveOTPCode_success:
  assumes "fst (SaveOTPCode e d uid code) = None"
  shows "snd (SaveOTPCode e d uid code) =
     update_users
       (\<lambda>r. r\<lparr>u_otp_code := Some code, u_otp_expires_at := Some (now e + 5 * minute)\<rparr>) uid d"
  using assms by (simp add: SaveOTPCode_def Let_def split: if_splits)

lemma ClearOTPCode_success:
  assumes "fst (ClearOTPCode e d uid) = None"
  shows "snd (ClearOTPCode e d uid) =
     update_users (\<lambda>r. r\<lparr>u_otp_code := None, u_otp_expires_at := None\<rparr>) uid d"
  using assms by (simp add: ClearOTPCode_def split: if_splits)

lemma no_row_with_id:
  assumes "uid \<notin> set (map u_id (users d))"
  shows "filter (\<lambda>r. u_id r = uid) (users d) = []"
  using assms by (auto simp: filter_empty_conv)

lemma mark_all_lookup:
  "mark_all m ts k = (if k \<in> set ts then Some True else m k)"
  by (induction ts arbitrary: m) auto

lemma user_taken_iff:
  "user_taken d n m = (\<exists>r \<in> set (users d). u_username r = n \<or> u_email r = m)"
  by (simp add: user_taken_def list_ex_iff)

lemma order_scan_task: "tsk_Order \<circ> scan_task = t_task_order"
  by (simp add: fun_eq_iff scan_task_def)

lemma fields_scan_task:
  "(\<lambda>t. (tsk_ID t, tsk_CourseID t, tsk_Title t, tsk_Description t, tsk_Difficulty t,
         tsk_Order t)) \<circ> scan_task =
   (\<lambda>r. (t_id r, t_course_id r, t_title r, t_description r, t_difficulty r, t_task_order r))"
  by (simp add: fun_eq_iff scan_task_def)

lemma field_failure_steps:
  assumes "email_fails e data \<or> full_name_fails e data \<or> password_fails e data"
  shows "profile_steps e uid data d = Inl (first_field_error e data)"
proof (cases "email_fails e data")
  case True
  then show ?thesis
    by (auto simp: profile_steps_def set_email_def first_field_error_def email_fails_def)
next
  case False
  then have "\<exists>w1. set_email e uid data d = Inr w1"
    by (auto simp: set_email_def email_fails_def)
  then obtain w1 where w1: "set_email e uid data d = Inr w1"
    by blast
  show ?thesis
  proof (cases "full_name_fails e data")
    case True
    with False w1 show ?thesis
      by (auto simp: profile_steps_def set_full_name_def first_field_error_def
            full_name_fails_def)
  next
    case n: False
    then have "\<exists>w2. set_full_name e uid data w1 = Inr w2"
      by (auto simp: set_full_name_def full_name_fails_def)
    then obtain w2 where w2: "set_full_name e uid data w1 = Inr w2"
      by blast
    from False n assms have "password_fails e data"
      by simp
    with False n w1 w2 show ?thesis
      by (auto simp: profile_steps_def set_password_def first_field_error_def
            password_fails_def split: option.splits)
  qed
qed

lemma count_list_distinct:
  "distinct xs \<Longrightarrow> count_list xs x = (if x \<in> set xs then 1 else 0)"
  by (induction xs) auto

section \<open>Facts about the profile update\<close>

lemma profile_steps_users:
  assumes "profile_steps e uid data d = Inr w"
  shows "w = update_users (applied e data) uid d"
proof -
  define f1 where "f1 = (\<lambda>r::user_row.
    r\<lparr>u_email := (if req_Email data = [] then u_email r else req_Email data)\<rparr>)"
  define f2 where "f2 = (\<lambda>r::user_row.
    r\<lparr>u_full_name := (if req_FullName data = [] then u_full_name r else req_FullName data)\<rparr>)"
  define f3 where "f3 = (\<lambda>r::user_row.
    r\<lparr>u_password_hash :=
         (if req_Password data = [] then u_password_hash r
          else case bcrypt e (req_Password data) of None \<Rightarrow> u_password_hash r | Some h \<Rightarrow> h)\<rparr>)"
  from assms obtain w1 w2 where
    s1: "set_email e uid data d = Inr w1" and
    s2: "set_full_name e uid data w1 = Inr w2" and
    s3: "set_password e uid data w2 = Inr w"
    by (auto simp: profile_steps_def split: sum.splits)
  have w1: "w1 = update_users f1 uid d"
    using s1 by (auto simp: f1_def set_email_def update_users_same split: if_splits)
  have w2: "w2 = update_users f2 uid w1"
    using s2 by (auto simp: f2_def set_full_name_def update_users_same split: if_splits)
  have w3: "w = update_users f3 uid w2"
    using s3
    by (auto simp: f3_def set_password_def update_users_same split: if_splits option.splits)
  have ids: "u_id (f1 r) = u_id r" "u_id (f2 r) = u_id r" for r
    by (simp_all add: f1_def f2_def)
  have comp: "(\<lambda>r. f3 (f2 (f1 r))) = applied e data"
    by (rule ext) (simp add: f1_def f2_def f3_def applied_def split: option.splits)
  have "w = update_users (\<lambda>r. f3 (f2 (f1 r))) uid d"
    unfolding w3 w2 w1 by (simp add: update_users_comp ids)
  then show ?thesis
    by (simp only: comp)
qed

lemma failure_store:
  assumes "ret (UpdateUserProfile e d uid data) \<noteq> None"
  shows "store (UpdateUserProfile e d uid data) = d"
  using assms
  by (auto simp: UpdateUserProfile_def deferred_def split: sum.splits if_splits)

lemma success_store:
  assumes "ret (UpdateUserProfile e d uid data) = None"
  shows "store (UpdateUserProfile e d uid data) = update_users (applied e data) uid d"
  using assms
  by (auto simp: UpdateUserProfile_def deferred_def dest: profile_steps_users
      split: sum.splits if_splits)

lemma store_cases:
  "store (UpdateUserProfile e d uid data) = d \<or>
   store (UpdateUserProfile e d uid data) = update_users (applied e data) uid d"
  by (cases "ret (UpdateUserProfile e d uid data)") (auto simp: success_store failure_store)

text \<open>
  The rollback of the deferred function is dead code: no call ends with the transaction
  rolled back, and a call that returns the error of a block leaves it open.
\<close>

lemma never_rolled_back: "tx (UpdateUserProfile e d uid data) \<noteq> RolledBack"
  by (auto simp: UpdateUserProfile_def deferred_def split: sum.splits if_splits)

lemma block_error_leaves_open:
  assumes "\<not> fails e TxBegin" and "profile_steps e uid data d = Inl x"
  shows "UpdateUserProfile e d uid data = \<lparr>ret = Some x, store = d, tx = LeftOpen\<rparr>"
  using assms by (simp add: UpdateUserProfile_def deferred_def)

text \<open>
  With no row of the user \<^verbatim>\<open>VerifyOTPCode\<close> returns \<^verbatim>\<open>(false, nil)\<close>, and with a code and an
  expiry in the row it decides as the specification says.
\<close>

lemma VerifyOTPCode_no_row:
  assumes "\<not> fails e (Prepare 1)" and "\<not> fails e (QueryRow 1)"
    and "uid \<notin> set (map u_id (users d))"
  shows "VerifyOTPCode e d uid code = (False, None)"
  using assms by (simp add: VerifyOTPCode_def select_otp_def no_row_with_id)

lemma VerifyOTPCode_stored:
  assumes "\<not> fails e (Prepare 1)" and "\<not> fails e (QueryRow 1)"
    and "select_otp d uid = (Some c, Some x) # rest"
  shows "VerifyOTPCode e d uid code = (c \<noteq> [] \<and> code = c \<and> now e \<le> x, None)"
  using assms by (auto simp: VerifyOTPCode_def)

section \<open>Claims about one-time codes\<close>

text \<open>
  Claim C1. \<^verbatim>\<open>VerifyOTPCode\<close> is to return true exactly when a challenge is pending, the
  codes are equal and the time is not after the expiry, and \<^verbatim>\<open>(false, nil)\<close> in every other
  case, the case of no stored challenge included. The code does not: after
  \<^verbatim>\<open>SaveOTPCode\<close> and \<^verbatim>\<open>ClearOTPCode\<close> for user 7 both columns are \<open>NULL\<close>, \<^verbatim>\<open>Scan\<close> cannot
  store \<open>NULL\<close> in the \<^verbatim>\<open>string\<close> variable, and the call returns false together with that
  error, so the test \<^verbatim>\<open>storedCode == ""\<close> written for this case is never reached.
\<close>

theorem VerifyOTPCode_after_clear_is_error:
  "VerifyOTPCode env0
     (snd (ClearOTPCode env0 (snd (SaveOTPCode env0 db0 7 ''123456'')) 7)) 7 ''123456''
   = (False, Some (ErrScanNull 0))"
  by (simp add: VerifyOTPCode_def ClearOTPCode_def SaveOTPCode_def select_otp_def
        update_users_def example_defs)

text \<open>
  Claim C8. A store in which every user row has the code and the expiry both set or both
  absent is still such a store after \<^verbatim>\<open>SaveOTPCode\<close> and after \<^verbatim>\<open>ClearOTPCode\<close>, whether
  they succeed or fail. A successful \<^verbatim>\<open>SaveOTPCode\<close> sets, in every row of the user, the
  code and the expiry, five minutes after the time of the call; a successful
  \<^verbatim>\<open>ClearOTPCode\<close> sets both to \<open>NULL\<close>. \<^verbatim>\<open>ClearOTPCode\<close> a second time returns what the first
  returned and leaves the store of the first, and it succeeds on every store when its two
  store calls do.
\<close>

theorem otp_invariant_preserved:
  assumes "\<forall>r \<in> set (users d). otp_inv r"
  shows "(\<forall>r \<in> set (users (snd (SaveOTPCode e d uid code))). otp_inv r) \<and>
         (\<forall>r \<in> set (users (snd (ClearOTPCode e d uid))). otp_inv r) \<and>
         (fst (SaveOTPCode e d uid code) = None \<longrightarrow>
            (\<forall>r \<in> set (users (snd (SaveOTPCode e d uid code))). u_id r = uid \<longrightarrow>
               u_otp_code r = Some code \<and> u_otp_expires_at r = Some (now e + 5 * minute))) \<and>
         (fst (ClearOTPCode e d uid) = None \<longrightarrow>
            (\<forall>r \<in> set (users (snd (ClearOTPCode e d uid))). u_id r = uid \<longrightarrow>
               u_otp_code r = None \<and> u_otp_expires_at r = None)) \<and>
         ClearOTPCode e (snd (ClearOTPCode e d uid)) uid = ClearOTPCode e d uid \<and>
         (\<not> fails e (Prepare 1) \<and> \<not> fails e (Exec 1) \<longrightarrow> fst (ClearOTPCode e d uid) = None)"
proof (intro conjI)
  show "\<forall>r \<in> set (users (snd (SaveOTPCode e d uid code))). otp_inv r"
    using assms otp_inv_update_users [OF assms otp_inv_set]
    by (simp add: SaveOTPCode_def Let_def)
  show "\<forall>r \<in> set (users (snd (ClearOTPCode e d uid))). otp_inv r"
    using assms otp_inv_update_users [OF assms otp_inv_clear]
    by (simp add: ClearOTPCode_def)
  show "fst (SaveOTPCode e d uid code) = None \<longrightarrow>
          (\<forall>r \<in> set (users (snd (SaveOTPCode e d uid code))). u_id r = uid \<longrightarrow>
             u_otp_code r = Some code \<and> u_otp_expires_at r = Some (now e + 5 * minute))"
  proof (intro impI ballI)
    fix r
    assume ok: "fst (SaveOTPCode e d uid code) = None"
      and r: "r \<in> set (users (snd (SaveOTPCode e d uid code)))" and u: "u_id r = uid"
    from r u obtain r0 where
      "r = r0\<lparr>u_otp_code := Some code, u_otp_expires_at := Some (now e + 5 * minute)\<rparr>"
      unfolding SaveOTPCode_success [OF ok] by (auto elim!: rows_update_users)
    then show "u_otp_code r = Some code \<and> u_otp_expires_at r = Some (now e + 5 * minute)"
      by simp
  qed
  show "fst (ClearOTPCode e d uid) = None \<longrightarrow>
          (\<forall>r \<in> set (users (snd (ClearOTPCode e d uid))). u_id r = uid \<longrightarrow>
             u_otp_code r = None \<and> u_otp_expires_at r = None)"
  proof (intro impI ballI)
    fix r
    assume ok: "fst (ClearOTPCode e d uid) = None"
      and r: "r \<in> set (users (snd (ClearOTPCode e d uid)))" and u: "u_id r = uid"
    from r u obtain r0 where "r = r0\<lparr>u_otp_code := None, u_otp_expires_at := None\<rparr>"
      unfolding ClearOTPCode_success [OF ok] by (auto elim!: rows_update_users)
    then show "u_otp_code r = None \<and> u_otp_expires_at r = None"
      by simp
  qed
  show "ClearOTPCode e (snd (ClearOTPCode e d uid)) uid = ClearOTPCode e d uid"
    by (simp add: ClearOTPCode_def update_users_comp)
  show "\<not> fails e (Prepare 1) \<and> \<not> fails e (Exec 1) \<longrightarrow> fst (ClearOTPCode e d uid) = None"
    by (simp add: ClearOTPCode_def)
qed

theorem otp_invariant_preserved_witness:
  "otp_inv alice \<and>
   snd (SaveOTPCode env0 db0 7 ''123456'') =
     db0\<lparr>users := [alice\<lparr>u_otp_code := Some ''123456'', u_otp_expires_at := Some (5 * minute)\<rparr>]\<rparr> \<and>
   otp_inv (alice\<lparr>u_otp_code := Some ''123456'', u_otp_expires_at := Some (5 * minute)\<rparr>) \<and>
   ClearOTPCode env0 (snd (SaveOTPCode env0 db0 7 ''123456'')) 7 = (None, db0) \<and>
   ClearOTPCode env0 db0 7 = (None, db0)"
proof -
  have inv: "\<forall>r \<in> set (users db0). otp_inv r"
    by (simp add: db0_def alice_def otp_inv_def)
  have saved: "snd (SaveOTPCode env0 db0 7 ''123456'') =
     db0\<lparr>users := [alice\<lparr>u_otp_code := Some ''123456'', u_otp_expires_at := Some (5 * minute)\<rparr>]\<rparr>"
    by (simp add: SaveOTPCode_def update_users_def example_defs)
  have cleared: "ClearOTPCode env0 (snd (SaveOTPCode env0 db0 7 ''123456'')) 7 = (None, db0)"
    unfolding saved by (simp add: ClearOTPCode_def update_users_def example_defs)
  have again: "ClearOTPCode env0 db0 7 = (None, db0)"
    using otp_invariant_preserved [OF inv, of env0 7 "''123456''"]
    by (simp add: ClearOTPCode_def update_users_def example_defs)
  from otp_invariant_preserved [OF inv, of env0 7 "''123456''"] saved cleared again
  show ?thesis
    by (simp add: db0_def)
qed

text \<open>
  Claim C9. For a user id that no row of the store has, \<^verbatim>\<open>VerifyOTPCode\<close> is to return
  \<^verbatim>\<open>(false, nil)\<close>, so that an unknown user is indistinguishable from a user with no
  pending challenge. For the unknown user 99 the code does return \<^verbatim>\<open>(false, nil)\<close>
  (\<^verbatim>\<open>sql.ErrNoRows\<close> is not passed on). For user 7, who exists and has no challenge
  (both columns are \<open>NULL\<close>), it returns false together with the error of \<^verbatim>\<open>Scan\<close>: the
  two are told apart. This is the defect of claim C1, seen from the other side.
\<close>

theorem VerifyOTPCode_unknown_user_told_apart:
  "(99::int) \<notin> set (map u_id (users db0)) \<and>
   VerifyOTPCode env0 db0 99 ''123456'' = (False, None) \<and>
   select_otp db0 7 = [(None, None)] \<and>
   VerifyOTPCode env0 db0 7 ''123456'' = (False, Some (ErrScanNull 0))"
  by (simp add: VerifyOTPCode_def select_otp_def example_defs)

section \<open>Claims about the profile update\<close>

text \<open>
  Claim C2. When a field update of \<^verbatim>\<open>UpdateUserProfile\<close> fails, that is when a field of
  the request is selected and its \<^verbatim>\<open>Prepare\<close>, its \<^verbatim>\<open>Exec\<close> or, for the password, the
  hashing fails, the call returns the error of the first such failure, and none of the
  fields of the call is persisted: the store is the store before the call, so the email,
  the full name and the password hash of every user are unchanged. The transaction is
  neither committed nor rolled back. More generally, whenever the call returns an error
  the store is unchanged and the transaction was not committed.
\<close>

theorem UpdateUserProfile_field_failure_persists_nothing:
  "(\<not> fails e TxBegin \<and>
    (email_fails e data \<or> full_name_fails e data \<or> password_fails e data) \<longrightarrow>
      UpdateUserProfile e d uid data =
        \<lparr>ret = Some (first_field_error e data), store = d, tx = LeftOpen\<rparr>) \<and>
   (ret (UpdateUserProfile e d uid data) \<noteq> None \<longrightarrow>
      store (UpdateUserProfile e d uid data) = d \<and>
      tx (UpdateUserProfile e d uid data) \<noteq> Committed)"
proof (intro conjI impI)
  assume a: "\<not> fails e TxBegin \<and>
    (email_fails e data \<or> full_name_fails e data \<or> password_fails e data)"
  then have "profile_steps e uid data d = Inl (first_field_error e data)"
    by (simp add: field_failure_steps)
  with a show "UpdateUserProfile e d uid data =
      \<lparr>ret = Some (first_field_error e data), store = d, tx = LeftOpen\<rparr>"
    by (simp add: block_error_leaves_open)
next
  assume r: "ret (UpdateUserProfile e d uid data) \<noteq> None"
  then show "store (UpdateUserProfile e d uid data) = d"
    by (rule failure_store)
  from r show "tx (UpdateUserProfile e d uid data) \<noteq> Committed"
    by (auto simp: UpdateUserProfile_def deferred_def split: sum.splits if_splits)
qed

theorem UpdateUserProfile_field_failure_persists_nothing_witness:
  "\<not> fails env_exec2 TxBegin \<and> \<not> email_fails env_exec2 req_two \<and>
   full_name_fails env_exec2 req_two \<and>
   set_email env_exec2 7 req_two db0 = Inr (db0\<lparr>users := [alice\<lparr>u_email := ''n@x.com''\<rparr>]\<rparr>) \<and>
   UpdateUserProfile env_exec2 db0 7 req_two =
     \<lparr>ret = Some (ErrStore (Exec 2)), store = db0, tx = LeftOpen\<rparr>"
proof -
  have b: "\<not> fails env_exec2 TxBegin"
    by (simp add: env_exec2_def env0_def)
  have m: "\<not> email_fails env_exec2 req_two"
    by (simp add: email_fails_def env_exec2_def env0_def)
  have n: "full_name_fails env_exec2 req_two"
    by (simp add: full_name_fails_def env_exec2_def env0_def req_two_def)
  have x: "first_field_error env_exec2 req_two = ErrStore (Exec 2)"
    by (simp add: first_field_error_def m n) (simp add: env_exec2_def env0_def)
  have s: "set_email env_exec2 7 req_two db0 = Inr (db0\<lparr>users := [alice\<lparr>u_email := ''n@x.com''\<rparr>]\<rparr>)"
    by (simp add: set_email_def update_users_def example_defs)
  from UpdateUserProfile_field_failure_persists_nothing
         [where e = env_exec2 and data = req_two and d = db0 and uid = 7] b m n x s
  show ?thesis
    by simp
qed

text \<open>
  Claim C5. A field of the request that is empty leaves its column as it is, in every
  row and whatever the outcome of the call; a call that succeeds applies the fields that
  are not empty to the rows of the user, and to nothing else. In particular a request
  with only a full name, when the store calls it makes succeed, commits exactly the new
  full name.
\<close>

theorem UpdateUserProfile_empty_fields_unchanged:
  "(req_Email data = [] \<longrightarrow>
      map u_email (users (store (UpdateUserProfile e d uid data))) = map u_email (users d)) \<and>
   (req_FullName data = [] \<longrightarrow>
      map u_full_name (users (store (UpdateUserProfile e d uid data))) =
        map u_full_name (users d)) \<and>
   (req_Password data = [] \<longrightarrow>
      map u_password_hash (users (store (UpdateUserProfile e d uid data))) =
        map u_password_hash (users d)) \<and>
   (ret (UpdateUserProfile e d uid data) = None \<longrightarrow>
      store (UpdateUserProfile e d uid data) = update_users (applied e data) uid d) \<and>
   (n \<noteq> [] \<and> \<not> fails e TxBegin \<and> \<not> fails e (Prepare 2) \<and> \<not> fails e (Exec 2) \<and>
    \<not> fails e TxCommit \<longrightarrow>
      UpdateUserProfile e d uid \<lparr>req_Email = [], req_FullName = n, req_Password = []\<rparr> =
        \<lparr>ret = None, store = update_users (\<lambda>r. r\<lparr>u_full_name := n\<rparr>) uid d, tx = Committed\<rparr>)"
proof (intro conjI impI)
  assume "req_Email data = []"
  then show "map u_email (users (store (UpdateUserProfile e d uid data))) = map u_email (users d)"
    using store_cases [of e d uid data]
    by (auto simp: users_update_users applied_def)
next
  assume "req_FullName data = []"
  then show "map u_full_name (users (store (UpdateUserProfile e d uid data))) =
      map u_full_name (users d)"
    using store_cases [of e d uid data]
    by (auto simp: users_update_users applied_def)
next
  assume "req_Password data = []"
  then show "map u_password_hash (users (store (UpdateUserProfile e d uid data))) =
      map u_password_hash (users d)"
    using store_cases [of e d uid data]
    by (auto simp: users_update_users applied_def)
next
  assume "ret (UpdateUserProfile e d uid data) = None"
  then show "store (UpdateUserProfile e d uid data) = update_users (applied e data) uid d"
    by (rule success_store)
next
  assume "n \<noteq> [] \<and> \<not> fails e TxBegin \<and> \<not> fails e (Prepare 2) \<and> \<not> fails e (Exec 2) \<and>
    \<not> fails e TxCommit"
  then show "UpdateUserProfile e d uid \<lparr>req_Email = [], req_FullName = n, req_Password = []\<rparr> =
        \<lparr>ret = None, store = update_users (\<lambda>r. r\<lparr>u_full_name := n\<rparr>) uid d, tx = Committed\<rparr>"
    by (simp add: UpdateUserProfile_def deferred_def profile_steps_def set_email_def
          set_full_name_def set_password_def)
qed

theorem UpdateUserProfile_empty_fields_unchanged_witness:
  "UpdateUserProfile env0 db0 7 req_name =
     \<lparr>ret = None, store = db0\<lparr>users := [alice\<lparr>u_full_name := ''new''\<rparr>]\<rparr>, tx = Committed\<rparr> \<and>
   map u_email (users (store (UpdateUserProfile env0 db0 7 req_name))) = [''a@x.com''] \<and>
   map u_password_hash (users (store (UpdateUserProfile env0 db0 7 req_name))) = [''h0'']"
proof -
  have f: "''new'' \<noteq> [] \<and> \<not> fails env0 TxBegin \<and> \<not> fails env0 (Prepare 2) \<and>
      \<not> fails env0 (Exec 2) \<and> \<not> fails env0 TxCommit"
    by (simp add: env0_def)
  have e: "req_Email req_name = []" "req_Password req_name = []"
    by (simp_all add: req_name_def)
  have u: "update_users (\<lambda>r. r\<lparr>u_full_name := ''new''\<rparr>) 7 db0 =
      db0\<lparr>users := [alice\<lparr>u_full_name := ''new''\<rparr>]\<rparr>"
    by (simp add: update_users_def db0_def alice_def)
  have d: "map u_email (users db0) = [''a@x.com'']" "map u_password_hash (users db0) = [''h0'']"
    by (simp_all add: db0_def alice_def)
  from UpdateUserProfile_empty_fields_unchanged
         [where e = env0 and d = db0 and uid = 7 and data = req_name and n = "''new''"] f e u d
  show ?thesis
    by (simp add: req_name_def alice_def)
qed

section \<open>Claims about courses and progress\<close>

text \<open>
  Claim C3. On a store whose calls succeed, \<^verbatim>\<open>GetCourseByID\<close> returns the error
  \<^verbatim>\<open>ErrCourseNotFound\<close> when no course has the id. When one has, it returns a course with
  that id whose task list is sorted ascending by \<^verbatim>\<open>Order\<close> and holds exactly the tasks of
  that course: read field by field (\<^verbatim>\<open>ID\<close>, \<^verbatim>\<open>CourseID\<close>, \<^verbatim>\<open>Title\<close>, \<^verbatim>\<open>Description\<close>,
  \<^verbatim>\<open>Difficulty\<close>, \<^verbatim>\<open>Order\<close>), the tasks of the list are the rows of \<^verbatim>\<open>tasks\<close> whose
  \<^verbatim>\<open>course_id\<close> is the id, each as often as the table has it, and no other.
\<close>

theorem GetCourseByID_found_sorted:
  assumes "healthy e"
  shows "(cid \<notin> set (map c_id (courses d)) \<longrightarrow> GetCourseByID e d cid = Inl ErrCourseNotFound) \<and>
         (cid \<in> set (map c_id (courses d)) \<longrightarrow>
            (\<exists>c. GetCourseByID e d cid = Inr c \<and> crs_ID c = cid \<and>
                 sorted (map tsk_Order (crs_Tasks c)) \<and>
                 mset (map (\<lambda>t. (tsk_ID t, tsk_CourseID t, tsk_Title t, tsk_Description t,
                                  tsk_Difficulty t, tsk_Order t)) (crs_Tasks c)) =
                 mset (map (\<lambda>r. (t_id r, t_course_id r, t_title r, t_description r,
                                  t_difficulty r, t_task_order r))
                        (filter (\<lambda>r. t_course_id r = cid) (tasks d)))))"
proof (intro conjI impI)
  assume "cid \<notin> set (map c_id (courses d))"
  then have "filter (\<lambda>c. c_id c = cid) (courses d) = []"
    by (auto simp: filter_empty_conv)
  with assms show "GetCourseByID e d cid = Inl ErrCourseNotFound"
    by (simp add: GetCourseByID_def healthy_def)
next
  let ?T = "\<lambda>t. (tsk_ID t, tsk_CourseID t, tsk_Title t, tsk_Description t, tsk_Difficulty t,
    tsk_Order t)"
  let ?R = "\<lambda>r. (t_id r, t_course_id r, t_title r, t_description r, t_difficulty r,
    t_task_order r)"
  let ?rows = "sort_key t_task_order (tasks_of d cid)"
  assume "cid \<in> set (map c_id (courses d))"
  then obtain c cs where cs: "filter (\<lambda>c. c_id c = cid) (courses d) = c # cs"
    by (cases "filter (\<lambda>c. c_id c = cid) (courses d)") (auto simp: filter_empty_conv)
  then have "c \<in> set (filter (\<lambda>c. c_id c = cid) (courses d))"
    by simp
  then have c: "c_id c = cid"
    by simp
  define res where "res =
    \<lparr>crs_ID = c_id c, crs_VulnerabilityType = c_vulnerability_type c,
     crs_TasksCount = int (length (c # cs) * length (tasks_of d cid)),
     crs_Description = c_description c, crs_Tasks = map scan_task ?rows\<rparr>"
  have r: "GetCourseByID e d cid = Inr res"
    using cs assms by (simp add: GetCourseByID_def healthy_def Let_def res_def)
  have i: "crs_ID res = cid"
    using c by (simp add: res_def)
  have "map tsk_Order (crs_Tasks res) = map t_task_order ?rows"
    by (simp add: res_def order_scan_task)
  then have o: "sorted (map tsk_Order (crs_Tasks res))"
    by simp
  have "map ?T (crs_Tasks res) = map ?R ?rows"
    by (simp add: res_def fields_scan_task)
  then have "mset (map ?T (crs_Tasks res)) = mset (map ?R (tasks_of d cid))"
    by simp
  then have m: "mset (map ?T (crs_Tasks res)) =
      mset (map ?R (filter (\<lambda>r. t_course_id r = cid) (tasks d)))"
    by (simp add: tasks_of_def)
  from r i o m show "\<exists>c. GetCourseByID e d cid = Inr c \<and> crs_ID c = cid \<and>
      sorted (map tsk_Order (crs_Tasks c)) \<and> mset (map ?T (crs_Tasks c)) =
      mset (map ?R (filter (\<lambda>r. t_course_id r = cid) (tasks d)))"
    by blast
qed

theorem GetCourseByID_found_sorted_witness:
  "healthy env0 \<and> GetCourseByID env0 db0 3 = Inl ErrCourseNotFound \<and>
   map_sum id (\<lambda>c. map (\<lambda>t. (tsk_ID t, tsk_CourseID t, tsk_Title t, tsk_Order t)) (crs_Tasks c))
     (GetCourseByID env0 db0 1) = Inr [(12, 1, ''a'', 1), (10, 1, ''b'', 2)] \<and>
   (\<exists>c. GetCourseByID env0 db0 1 = Inr c \<and> crs_ID c = 1 \<and>
        sorted (map tsk_Order (crs_Tasks c)) \<and>
        mset (map (\<lambda>t. (tsk_ID t, tsk_CourseID t, tsk_Title t, tsk_Description t,
                         tsk_Difficulty t, tsk_Order t)) (crs_Tasks c)) =
        {#(10, 1, ''b'', [], ''easy'', 2), (12, 1, ''a'', [], ''easy'', 1)#})"
proof -
  have h: "healthy env0"
    by (simp add: healthy_def env0_def)
  have a: "(3::int) \<notin> set (map c_id (courses db0))" "(1::int) \<in> set (map c_id (courses db0))"
    by (simp_all add: db0_def)
  have t: "map (\<lambda>r. (t_id r, t_course_id r, t_title r, t_description r, t_difficulty r,
                     t_task_order r)) (filter (\<lambda>r. t_course_id r = 1) (tasks db0)) =
           [(10, 1, ''b'', [], ''easy'', 2), (12, 1, ''a'', [], ''easy'', 1)]"
    by (simp add: db0_def)
  have v: "map_sum id
     (\<lambda>c. map (\<lambda>t. (tsk_ID t, tsk_CourseID t, tsk_Title t, tsk_Order t)) (crs_Tasks c))
     (GetCourseByID env0 db0 1) = Inr [(12, 1, ''a'', 1), (10, 1, ''b'', 2)]"
    by (simp add: GetCourseByID_def tasks_of_def scan_task_def db0_def env0_def)
  from GetCourseByID_found_sorted [OF h, of 3 db0] GetCourseByID_found_sorted [OF h, of 1 db0]
    h a t v
  show ?thesis
    by simp
qed

text \<open>
  Claim C7, amended. When no task has the id and the existence query succeeds,
  \<^verbatim>\<open>CompleteTask\<close> returns \<^verbatim>\<open>ErrTaskNotFound\<close> and leaves the store, so the progress of the
  user, as it was. When a task has the id, the user exists and the store calls succeed,
  the call succeeds, the store has the row of the user and the task, and
  \<^verbatim>\<open>GetUserProgress\<close> of the user maps the task to true.
\<close>

theorem CompleteTask_unknown_task:
  "(t \<notin> set (map t_id (tasks d)) \<and> \<not> fails e (QueryRow 1) \<longrightarrow>
      CompleteTask e d u t = (Some ErrTaskNotFound, d) \<and>
      GetUserProgress e (snd (CompleteTask e d u t)) u = GetUserProgress e d u) \<and>
   (t \<in> set (map t_id (tasks d)) \<and> u \<in> set (map u_id (users d)) \<and> healthy e \<longrightarrow>
      fst (CompleteTask e d u t) = None \<and>
      (u, t) \<in> set (user_progress (snd (CompleteTask e d u t))) \<and>
      (\<exists>p. GetUserProgress e (snd (CompleteTask e d u t)) u = Inr p \<and>
           prg_UserID p = u \<and> prg_Completed p t = Some True))"
  by (auto simp: CompleteTask_def task_exists_def healthy_def upsert_progress_def
        GetUserProgress_def select_progress_def mark_all_lookup Let_def image_iff)

theorem CompleteTask_unknown_task_witness:
  "CompleteTask env0 db0 1 9999 = (Some ErrTaskNotFound, db0) \<and>
   CompleteTask env0 db0 7 10 = (None, db0\<lparr>user_progress := [(7, 10)]\<rparr>) \<and>
   (\<exists>p. GetUserProgress env0 (snd (CompleteTask env0 db0 7 10)) 7 = Inr p \<and>
        prg_UserID p = 7 \<and> prg_Completed p 10 = Some True)"
proof -
  have h: "healthy env0" "\<not> fails env0 (QueryRow 1)"
    by (simp_all add: healthy_def env0_def)
  have a: "(9999::int) \<notin> set (map t_id (tasks db0))" "(10::int) \<in> set (map t_id (tasks db0))"
    "(7::int) \<in> set (map u_id (users db0))"
    by (simp_all add: db0_def alice_def)
  have c: "CompleteTask env0 db0 7 10 = (None, db0\<lparr>user_progress := [(7, 10)]\<rparr>)"
    by (simp add: CompleteTask_def task_exists_def upsert_progress_def db0_def env0_def
          alice_def)
  from CompleteTask_unknown_task [where t = 9999 and d = db0 and e = env0 and u = 1]
    CompleteTask_unknown_task [where t = 10 and d = db0 and e = env0 and u = 7]
    h a c
  show ?thesis
    by simp
qed

text \<open>
  Claim C7 as it was stated, for every user id, fails for a user id that no row of
  \<^verbatim>\<open>users\<close> has: task 10 exists and the store calls succeed, and the \<^verbatim>\<open>INSERT\<close> for user 99
  is refused; the call returns the error and marks nothing.
\<close>

theorem CompleteTask_unknown_user_not_marked:
  "healthy env0 \<and> (10::int) \<in> set (map t_id (tasks db0)) \<and>
   (99::int) \<notin> set (map u_id (users db0)) \<and>
   fst (CompleteTask env0 db0 99 10) = Some ErrForeignKey \<and>
   (99, 10) \<notin> set (user_progress (snd (CompleteTask env0 db0 99 10))) \<and>
   select_progress (snd (CompleteTask env0 db0 99 10)) 99 = []"
  by (simp add: healthy_def CompleteTask_def task_exists_def upsert_progress_def
        select_progress_def db0_def env0_def alice_def)

text \<open>
  Claim C4, amended. For a user that exists, a task that exists and a store whose calls
  succeed, \<^verbatim>\<open>CompleteTask\<close> with the same user and task succeeds the first time and the
  second time, and the second call leaves the store the first call left.
  \<^verbatim>\<open>GetUserProgress\<close> then maps the task to true, and when the rows of \<^verbatim>\<open>user_progress\<close>
  were distinct before, the table holds the row of the user and the task once.
\<close>

theorem CompleteTask_twice:
  assumes "healthy e" and "t \<in> set (map t_id (tasks d))" and "u \<in> set (map u_id (users d))"
  shows "fst (CompleteTask e d u t) = None \<and>
         CompleteTask e (snd (CompleteTask e d u t)) u t = (None, snd (CompleteTask e d u t)) \<and>
         (\<exists>p. GetUserProgress e (snd (CompleteTask e (snd (CompleteTask e d u t)) u t)) u = Inr p \<and>
              prg_Completed p t = Some True) \<and>
         (distinct (user_progress d) \<longrightarrow>
            count_list (user_progress (snd (CompleteTask e (snd (CompleteTask e d u t)) u t)))
              (u, t) = 1)"
  using assms
  by (auto simp: CompleteTask_def task_exists_def healthy_def upsert_progress_def
        GetUserProgress_def select_progress_def mark_all_lookup Let_def image_iff
        count_list_distinct)

theorem CompleteTask_twice_witness:
  "healthy env0 \<and> (10::int) \<in> set (map t_id (tasks db0)) \<and>
   (7::int) \<in> set (map u_id (users db0)) \<and> distinct (user_progress db0) \<and>
   CompleteTask env0 db0 7 10 = (None, db0\<lparr>user_progress := [(7, 10)]\<rparr>) \<and>
   CompleteTask env0 (snd (CompleteTask env0 db0 7 10)) 7 10 =
     (None, db0\<lparr>user_progress := [(7, 10)]\<rparr>) \<and>
   count_list (user_progress (snd (CompleteTask env0 (snd (CompleteTask env0 db0 7 10)) 7 10)))
     (7, 10) = 1"
proof -
  have h: "healthy env0"
    by (simp add: healthy_def env0_def)
  have a: "(10::int) \<in> set (map t_id (tasks db0))" "(7::int) \<in> set (map u_id (users db0))"
    "distinct (user_progress db0)"
    by (simp_all add: db0_def alice_def)
  have c: "CompleteTask env0 db0 7 10 = (None, db0\<lparr>user_progress := [(7, 10)]\<rparr>)"
    by (simp add: CompleteTask_def task_exists_def upsert_progress_def db0_def env0_def
          alice_def)
  from CompleteTask_twice [OF h a(1) a(2)] h a c
  show ?thesis
    by simp
qed

text \<open>
  Claim C4 as it was stated, for every user id, fails for a user id that no row of
  \<^verbatim>\<open>users\<close> has: for user 99 and the existing task 10 neither the first call nor the
  second succeeds.
\<close>

theorem CompleteTask_twice_unknown_user_fails:
  "healthy env0 \<and> (10::int) \<in> set (map t_id (tasks db0)) \<and>
   (99::int) \<notin> set (map u_id (users db0)) \<and>
   CompleteTask env0 db0 99 10 = (Some ErrForeignKey, db0) \<and>
   CompleteTask env0 (snd (CompleteTask env0 db0 99 10)) 99 10 = (Some ErrForeignKey, db0)"
  by (simp add: healthy_def CompleteTask_def task_exists_def upsert_progress_def
        db0_def env0_def alice_def)

section \<open>Claims about registration\<close>

text \<open>
  Claim C6. When a row of \<^verbatim>\<open>users\<close> has the username or the email of the candidate and
  the existence query succeeds, \<^verbatim>\<open>CreateUser\<close> returns the error
  \<^verbatim>\<open>username or email already exists\<close> and the store is as before, with no new row. When no
  row has either and the store calls succeed, the call succeeds and the store has one
  more row, with the username and the email of the candidate.
\<close>

theorem CreateUser_conflict:
  "((\<exists>r \<in> set (users d). u_username r = usr_Username u \<or> u_email r = usr_Email u) \<and>
     \<not> fails e (Prepare 1) \<and> \<not> fails e (QueryRow 1) \<longrightarrow>
       CreateUser e d u = (Some ErrUserExists, d)) \<and>
   (\<not> (\<exists>r \<in> set (users d). u_username r = usr_Username u \<or> u_email r = usr_Email u) \<and>
     healthy e \<longrightarrow>
       CreateUser e d u = (None, d\<lparr>users := users d @ [inserted_row e u]\<rparr>) \<and>
       u_username (inserted_row e u) = usr_Username u \<and>
       u_email (inserted_row e u) = usr_Email u)"
  by (simp add: CreateUser_def user_taken_iff healthy_def inserted_row_def)

theorem CreateUser_conflict_witness:
  "CreateUser env0 db0 candidate = (None, db0\<lparr>users := [alice, inserted_row env0 candidate]\<rparr>) \<and>
   u_username (inserted_row env0 candidate) = ''bob'' \<and>
   CreateUser env0 db0 (candidate\<lparr>usr_Username := ''alice''\<rparr>) = (Some ErrUserExists, db0)"
proof -
  have h: "healthy env0" "\<not> fails env0 (Prepare 1)" "\<not> fails env0 (QueryRow 1)"
    by (simp_all add: healthy_def env0_def)
  have a: "\<not> (\<exists>r \<in> set (users db0).
      u_username r = usr_Username candidate \<or> u_email r = usr_Email candidate)"
    by (simp add: db0_def alice_def candidate_def)
  have b: "\<exists>r \<in> set (users db0).
      u_username r = usr_Username (candidate\<lparr>usr_Username := ''alice''\<rparr>) \<or>
      u_email r = usr_Email (candidate\<lparr>usr_Username := ''alice''\<rparr>)"
    by (simp add: db0_def alice_def)
  have n: "usr_Username candidate = ''bob''" "users db0 = [alice]"
    by (simp_all add: candidate_def db0_def)
  from CreateUser_conflict [of db0 candidate env0]
    CreateUser_conflict [of db0 "candidate\<lparr>usr_Username := ''alice''\<rparr>" env0] h a b n
  show ?thesis
    by simp
qed

text \<open>
  Claim C10. A \<^verbatim>\<open>CreateUser\<close> that succeeds has added one row, and that row is active,
  with the username and the email of the candidate. The \<^verbatim>\<open>IsActive\<close> and \<^verbatim>\<open>IsAdmin\<close> of
  the candidate are not read: with any other values the call returns the same error
  and the same store.
\<close>

theorem CreateUser_always_active:
  "(fst (CreateUser e d u) = None \<longrightarrow>
      (\<exists>r. users (snd (CreateUser e d u)) = users d @ [r] \<and> u_is_active r \<and>
           u_username r = usr_Username u \<and> u_email r = usr_Email u)) \<and>
   CreateUser e d (u\<lparr>usr_IsActive := a, usr_IsAdmin := b\<rparr>) = CreateUser e d u"
  by (simp add: CreateUser_def inserted_row_def)

theorem CreateUser_always_active_witness:
  "\<not> usr_IsActive candidate \<and> fst (CreateUser env0 db0 candidate) = None \<and>
   (\<exists>r. users (snd (CreateUser env0 db0 candidate)) = users db0 @ [r] \<and> u_is_active r \<and>
        u_username r = usr_Username candidate \<and> u_email r = usr_Email candidate) \<and>
   CreateUser env0 db0 (candidate\<lparr>usr_IsActive := True, usr_IsAdmin := False\<rparr>) =
     CreateUser env0 db0 candidate"
proof -
  have s: "fst (CreateUser env0 db0 candidate) = None"
    by (simp add: CreateUser_def user_taken_def example_defs)
  have c: "\<not> usr_IsActive candidate"
    by (simp add: candidate_def)
  from CreateUser_always_active
         [where e = env0 and d = db0 and u = candidate and a = True and b = False] s c
  show ?thesis
    by simp
qed

end
